theory Spec2Isabelle
  imports Complex_Main "HOL-Library.Multiset" "HOL-Library.Log_Nat"
begin

section \<open>The timeline page: data model\<close>

text \<open>
  The development follows \<^verbatim>\<open>screenpipe-app-tauri/app/timeline/page.tsx\<close>. The interfaces
  of the file become records. A field name that is used by two interfaces, or that is a
  constant of HOL, carries a prefix: \<open>md_timestamp\<close> is \<^verbatim>\<open>DeviceMetadata.timestamp\<close>,
  \<open>msg_id\<close> is \<^verbatim>\<open>Message.id\<close>, \<open>range_start\<close> and \<open>range_end\<close> are
  \<^verbatim>\<open>TimeRange.start\<close> and \<^verbatim>\<open>TimeRange.end\<close>. A finite JavaScript number is the
  real it denotes and the arithmetic on numbers rounds to binary64 (section Numbers); a
  \<^verbatim>\<open>Date\<close> is its time value (milliseconds since the epoch, an integer).
\<close>

record AudioData =
  device_name :: string
  is_input :: bool
  transcription :: string
  audio_file_path :: string
  duration_secs :: real
  start_offset :: real

record DeviceMetadata =
  file_path :: string
  app_name :: string
  window_name :: string
  ocr_text :: string
  md_timestamp :: string

record DeviceFrameResponse =
  device_id :: string
  frame :: string
  metadata :: DeviceMetadata
  audio :: "AudioData list"

record StreamTimeSeriesResponse =
  timestamp :: string
  devices :: "DeviceFrameResponse list"

record TimeRange =
  range_start :: int
  range_end :: int

datatype role = User | Assistant

record Message =
  msg_id :: string
  role :: role
  content :: string

datatype agent = ContextMaster | WindowTracker | TextScanner | VoiceAnalyzer

text \<open>
  An \<^verbatim>\<open>EventSource\<close> is known by the window of its URL and by whether it was closed.
  A completion request is recorded by what goes into it: the agent, the frames handed to
  the agent's selector, the earlier turns and the question.
\<close>

record EventSource =
  start_time :: int
  end_time :: int
  closed :: bool

record CompletionRequest =
  rq_agent :: agent
  rq_frames :: "StreamTimeSeriesResponse list"
  rq_history :: "Message list"
  rq_question :: string

text \<open>
  The state of the component: the \<^verbatim>\<open>useState\<close> and \<^verbatim>\<open>useRef\<close> cells the handlers
  read and write, and three traces of what leaves the component: the lines written to
  the console, the toasts shown and the completion requests opened. The abort controller
  is the \<^verbatim>\<open>aborted\<close> flag of its signal.
\<close>

record state =
  currentFrame :: "DeviceFrameResponse option"
  frames :: "StreamTimeSeriesResponse list"
  currentIndex :: int
  isLoading :: bool
  error :: "string option"
  loadedTimeRange :: "TimeRange option"
  eventSourceRef :: "EventSource option"
  retryCount :: nat
  isDragging :: bool
  selectionRange :: "TimeRange option"
  dragStart :: "real option"
  chatMessages :: "Message list"
  isAiLoading :: bool
  isStreaming :: bool
  abortControllerRef :: "bool option"
  isAiPanelExpanded :: bool
  aiInput :: string
  selectedAgent :: agent
  console :: "string list"
  toasts :: "string list"
  requests :: "CompletionRequest list"

definition initial_state :: state where
  "initial_state =
     \<lparr>currentFrame = None, frames = [], currentIndex = 0, isLoading = True, error = None,
      loadedTimeRange = None, eventSourceRef = None, retryCount = 0, isDragging = False,
      selectionRange = None, dragStart = None, chatMessages = [], isAiLoading = False,
      isStreaming = False, abortControllerRef = None, isAiPanelExpanded = False,
      aiInput = [], selectedAgent = ContextMaster, console = [], toasts = [],
      requests = []\<rparr>"

section \<open>Dates\<close>

text \<open>
  The \<^verbatim>\<open>Date\<close> operations the handlers call, after the abstract operations of the
  ECMAScript standard, on integer time values. The time zone of the host is a parameter:
  the two readings of the standard's \<^verbatim>\<open>LocalTZA\<close>, the offset in milliseconds of
  local time from UTC at a UTC time value (\<open>offsetAt\<close>) and the offset the host takes for
  a local time value (\<open>offsetOfLocal\<close>; for a local time skipped by a transition it is
  the offset before the transition). The range limit of time values
  (\<^verbatim>\<open>TimeClip\<close>) is not modelled.
\<close>

record TimeZone =
  offsetAt :: "int \<Rightarrow> int"
  offsetOfLocal :: "int \<Rightarrow> int"

definition msPerDay :: int where "msPerDay = 86400000"
definition msPerHour :: int where "msPerHour = 3600000"
definition msPerMinute :: int where "msPerMinute = 60000"
definition msPerSecond :: int where "msPerSecond = 1000"

definition Day :: "int \<Rightarrow> int" where
  "Day t = t div msPerDay"


definition DaysInYear :: "int \<Rightarrow> int" where
  "DaysInYear y =
     (if y mod 4 \<noteq> 0 then 365 else if y mod 100 \<noteq> 0 then 366
      else if y mod 400 \<noteq> 0 then 365 else 366)"

definition DayFromYear :: "int \<Rightarrow> int" where
  "DayFromYear y =
     365 * (y - 1970) + (y - 1969) div 4 - (y - 1901) div 100 + (y - 1601) div 400"

text \<open>
  The standard's \<^verbatim>\<open>YearFromTime\<close> is the largest year that starts at or before \<open>t\<close>.
  It is computed here from an estimate that is off by one year at most
  (lemma \<open>YearFromTime_bounds\<close> below).
\<close>

definition YearFromTime :: "int \<Rightarrow> int" where
  "YearFromTime t =
     (let d = Day t; y = 1970 + (d * 400) div 146097
      in if d < DayFromYear y then y - 1
         else if DayFromYear (y + 1) \<le> d then y + 1 else y)"

definition InLeapYear :: "int \<Rightarrow> int" where
  "InLeapYear t = (if DaysInYear (YearFromTime t) = 366 then 1 else 0)"

definition DayWithinYear :: "int \<Rightarrow> int" where
  "DayWithinYear t = Day t - DayFromYear (YearFromTime t)"

definition monthStart :: "int \<Rightarrow> int \<Rightarrow> int" where
  "monthStart leap m =
     (if m = 0 then 0 else if m = 1 then 31 else if m = 2 then 59 + leap
      else if m = 3 then 90 + leap else if m = 4 then 120 + leap
      else if m = 5 then 151 + leap else if m = 6 then 181 + leap
      else if m = 7 then 212 + leap else if m = 8 then 243 + leap
      else if m = 9 then 273 + leap else if m = 10 then 304 + leap else 334 + leap)"

definition MonthFromTime :: "int \<Rightarrow> int" where
  "MonthFromTime t =
     (let d = DayWithinYear t; leap = InLeapYear t
      in if d < 31 then 0 else if d < 59 + leap then 1 else if d < 90 + leap then 2
         else if d < 120 + leap then 3 else if d < 151 + leap then 4
         else if d < 181 + leap then 5 else if d < 212 + leap then 6
         else if d < 243 + leap then 7 else if d < 273 + leap then 8
         else if d < 304 + leap then 9 else if d < 334 + leap then 10 else 11)"

definition DateFromTime :: "int \<Rightarrow> int" where
  "DateFromTime t = DayWithinYear t - monthStart (InLeapYear t) (MonthFromTime t) + 1"

definition HourFromTime :: "int \<Rightarrow> int" where
  "HourFromTime t = (t div msPerHour) mod 24"

definition MinFromTime :: "int \<Rightarrow> int" where
  "MinFromTime t = (t div msPerMinute) mod 60"

definition SecFromTime :: "int \<Rightarrow> int" where
  "SecFromTime t = (t div msPerSecond) mod 60"

definition msFromTime :: "int \<Rightarrow> int" where
  "msFromTime t = t mod msPerSecond"

definition MakeTime :: "int \<Rightarrow> int \<Rightarrow> int \<Rightarrow> int \<Rightarrow> int" where
  "MakeTime h m s ms = h * msPerHour + m * msPerMinute + s * msPerSecond + ms"

definition MakeDay :: "int \<Rightarrow> int \<Rightarrow> int \<Rightarrow> int" where
  "MakeDay y m d =
     (let ym = y + m div 12; mn = m mod 12
      in DayFromYear ym + monthStart (if DaysInYear ym = 366 then 1 else 0) mn + d - 1)"

definition MakeDate :: "int \<Rightarrow> int \<Rightarrow> int" where
  "MakeDate day time = day * msPerDay + time"

definition LocalTime :: "TimeZone \<Rightarrow> int \<Rightarrow> int" where
  "LocalTime z t = t + offsetAt z t"

definition UTC :: "TimeZone \<Rightarrow> int \<Rightarrow> int" where
  "UTC z t = t - offsetOfLocal z t"

text \<open>
  A zone whose offset never changes, and what the theorems on calendar fields ask of a
  zone: offsets of whole minutes, of one day at most.
\<close>

definition fixedZone :: "int \<Rightarrow> TimeZone" where
  "fixedZone c = \<lparr>offsetAt = (\<lambda>t. c), offsetOfLocal = (\<lambda>t. c)\<rparr>"


text \<open>\<^verbatim>\<open>date.setHours(h, m, s, ms)\<close> and \<^verbatim>\<open>date.setMinutes(m)\<close>: local-time setters.\<close>

definition setHours :: "TimeZone \<Rightarrow> int \<Rightarrow> int \<Rightarrow> int \<Rightarrow> int \<Rightarrow> int \<Rightarrow> int" where
  "setHours z t h m s ms = UTC z (MakeDate (Day (LocalTime z t)) (MakeTime h m s ms))"

definition setMinutes :: "TimeZone \<Rightarrow> int \<Rightarrow> int \<Rightarrow> int" where
  "setMinutes z t m =
     (let lt = LocalTime z t
      in UTC z (MakeDate (Day lt) (MakeTime (HourFromTime lt) m (SecFromTime lt) (msFromTime lt))))"

definition getMinutes :: "TimeZone \<Rightarrow> int \<Rightarrow> int" where
  "getMinutes z t = MinFromTime (LocalTime z t)"

text \<open>
  \<^verbatim>\<open>Date.UTC(year, month, date, hours, minutes, seconds, ms)\<close>; a year from 0 to 99 is
  read as a year of the twentieth century.
\<close>

definition DateUTC :: "int \<Rightarrow> int \<Rightarrow> int \<Rightarrow> int \<Rightarrow> int \<Rightarrow> int \<Rightarrow> int \<Rightarrow> int" where
  "DateUTC y m d h mi s ms =
     MakeDate (MakeDay (if 0 \<le> y \<and> y \<le> 99 then 1900 + y else y) m d) (MakeTime h mi s ms)"

text \<open>
  The expression both pointer handlers build from a local \<^verbatim>\<open>Date\<close>:
  \<^verbatim>\<open>new Date(Date.UTC(d.getUTCFullYear(), d.getUTCMonth(), d.getUTCDate(),
  d.getUTCHours(), d.getUTCMinutes(), 0, 0))\<close>.
\<close>

definition utcDateOf :: "int \<Rightarrow> int" where
  "utcDateOf d =
     DateUTC (YearFromTime d) (MonthFromTime d) (DateFromTime d) (HourFromTime d)
       (MinFromTime d) 0 0"

section \<open>Frame stream ingestor\<close>

text \<open>
  What \<^verbatim>\<open>JSON.parse(event.data)\<close> can give the message handler: an exception, the
  value \<^verbatim>\<open>null\<close> (reading its \<^verbatim>\<open>timestamp\<close> throws), the keep-alive sentinel, or
  a value whose \<^verbatim>\<open>timestamp\<close> and \<^verbatim>\<open>devices\<close> properties are present or not.
  A present timestamp is a string and a present devices value is a list, as
  \<^verbatim>\<open>StreamTimeSeriesResponse\<close> declares them.
\<close>

datatype payload =
  Unparsable
  | Null
  | KeepAlive
  | Data "string option" "DeviceFrameResponse list option"

text \<open>
  \<^verbatim>\<open>Array.prototype.sort\<close> with a comparison function: a stable sort, here by
  insertion. The comparison function of the handler subtracts the time values of the two
  timestamps; \<open>getTime\<close> stands for \<^verbatim>\<open>new Date(s).getTime()\<close>, with \<open>None\<close> for
  \<^verbatim>\<open>NaN\<close>, and a \<^verbatim>\<open>NaN\<close> difference counts as zero, as the sort reads it.
\<close>

fun insert_by :: "('a \<Rightarrow> 'a \<Rightarrow> int) \<Rightarrow> 'a \<Rightarrow> 'a list \<Rightarrow> 'a list" where
  "insert_by cmp x [] = [x]"
| "insert_by cmp x (y # ys) = (if cmp x y \<le> 0 then x # y # ys else y # insert_by cmp x ys)"

definition sort_by :: "('a \<Rightarrow> 'a \<Rightarrow> int) \<Rightarrow> 'a list \<Rightarrow> 'a list" where
  "sort_by cmp xs = foldr (insert_by cmp) xs []"

definition compareFrames ::
  "(string \<Rightarrow> int option) \<Rightarrow> StreamTimeSeriesResponse \<Rightarrow> StreamTimeSeriesResponse \<Rightarrow> int" where
  "compareFrames getTime a b =
     (case (getTime (timestamp b), getTime (timestamp a)) of
        (Some tb, Some ta) \<Rightarrow> tb - ta
      | _ \<Rightarrow> 0)"

definition addFrame ::
  "(string \<Rightarrow> int option) \<Rightarrow> StreamTimeSeriesResponse \<Rightarrow> StreamTimeSeriesResponse list
    \<Rightarrow> StreamTimeSeriesResponse list" where
  "addFrame getTime data prev =
     (if list_ex (\<lambda>f. timestamp f = timestamp data) prev then prev
      else sort_by (compareFrames getTime) (prev @ [data]))"

definition firstDevice :: "DeviceFrameResponse list \<Rightarrow> DeviceFrameResponse option" where
  "firstDevice ds = (case ds of [] \<Rightarrow> None | d # _ \<Rightarrow> Some d)"

definition onmessage :: "(string \<Rightarrow> int option) \<Rightarrow> state \<Rightarrow> payload \<Rightarrow> state" where
  "onmessage getTime s ev =
     (case ev of
        Unparsable \<Rightarrow> s\<lparr>console := console s @ [''failed to parse frame data:'']\<rparr>
      | Null \<Rightarrow> s\<lparr>console := console s @ [''failed to parse frame data:'']\<rparr>
      | KeepAlive \<Rightarrow> s
      | Data None _ \<Rightarrow> s
      | Data (Some ts) None \<Rightarrow> s
      | Data (Some ts) (Some ds) \<Rightarrow>
          if ts = [] then s
          else s\<lparr>frames := addFrame getTime \<lparr>timestamp = ts, devices = ds\<rparr> (frames s),
                 currentFrame :=
                   (case currentFrame s of Some f \<Rightarrow> Some f | None \<Rightarrow> firstDevice ds),
                 isLoading := False\<rparr>)"

definition onopen :: "state \<Rightarrow> state" where
  "onopen s =
     s\<lparr>console := console s @ [''eventsource connection opened''],
       error := None, retryCount := 0\<rparr>"

definition onerror :: "bool \<Rightarrow> state \<Rightarrow> state" where
  "onerror readyStateClosed s =
     (if readyStateClosed
      then s\<lparr>console := console s @ [''stream ended (expected behavior)''], isLoading := False\<rparr>
      else s\<lparr>console := console s @ [''eventsource error:''],
             error := Some ''connection lost. retrying...'',
             eventSourceRef := map_option (\<lambda>es. es\<lparr>closed := True\<rparr>) (eventSourceRef s)\<rparr>)"

text \<open>
  \<^verbatim>\<open>setupEventSource\<close> reads the clock twice, for the end and for the start of the
  window; the reference to the source it closes first is overwritten by the new source.
\<close>

definition setupEventSource :: "TimeZone \<Rightarrow> int \<Rightarrow> int \<Rightarrow> state \<Rightarrow> state" where
  "setupEventSource z now1 now2 s =
     (let endTime = setMinutes z now1 (getMinutes z now1 - 2);
          startTime = setHours z now2 0 1 0 0
      in s\<lparr>loadedTimeRange := Some \<lparr>range_start = startTime, range_end = endTime\<rparr>,
           console := console s @ [''starting stream:''],
           eventSourceRef :=
             Some \<lparr>start_time = startTime, end_time = endTime, closed = False\<rparr>\<rparr>)"

definition handleRefresh :: "TimeZone \<Rightarrow> int \<Rightarrow> int \<Rightarrow> state \<Rightarrow> state" where
  "handleRefresh z now1 now2 s =
     setupEventSource z now1 now2
       (s\<lparr>frames := [], currentFrame := None, currentIndex := 0, isLoading := True\<rparr>)"

section \<open>Numbers\<close>

text \<open>
  The pointer handlers divide and multiply numbers. A finite number is a binary64 value;
  \<^verbatim>\<open>a / b\<close> and \<^verbatim>\<open>a * b\<close> are the exact quotient and product rounded to the nearest
  binary64 value, ties to the even significand. The values of the handlers are far from
  overflow, so rounding to infinity is not modelled; \<^verbatim>\<open>NaN\<close>, the infinities and the
  sign of zero are not modelled. \<open>log2floor x\<close> is the exponent of the power of two at or
  below a positive \<open>x\<close>, \<open>binade\<close> the exponent of the format (subnormal numbers share the
  least one), \<open>ulp\<close> the distance of neighbouring binary64 values there.
\<close>

definition log2floor :: "real \<Rightarrow> int" where
  "log2floor x = (if 1 \<le> x then bitlen \<lfloor>x\<rfloor> - 1 else - bitlen (\<lceil>1 / x\<rceil> - 1))"

definition roundTiesToEven :: "real \<Rightarrow> int" where
  "roundTiesToEven y =
     (let f = \<lfloor>y\<rfloor>; d = y - of_int f
      in if d < 1 / 2 then f else if 1 / 2 < d then f + 1 else if even f then f else f + 1)"

definition binade :: "real \<Rightarrow> int" where
  "binade x = max (- 1022) (log2floor \<bar>x\<bar>)"

definition ulp :: "real \<Rightarrow> real" where
  "ulp x = 2 powi (binade x - 52)"

definition toDouble :: "real \<Rightarrow> real" where
  "toDouble x = (if x = 0 then 0 else of_int (roundTiesToEven (x / ulp x)) * ulp x)"

definition numDiv :: "real \<Rightarrow> real \<Rightarrow> real" where
  "numDiv a b = toDouble (a / b)"

definition numMul :: "real \<Rightarrow> real \<Rightarrow> real" where
  "numMul a b = toDouble (a * b)"

text \<open>
  The remainder operator takes the sign of the dividend; its result is exact.
\<close>

definition js_rem :: "real \<Rightarrow> real \<Rightarrow> real" where
  "js_rem x y = x - y * of_int (if 0 \<le> x / y then \<lfloor>x / y\<rfloor> else \<lceil>x / y\<rceil>)"

section \<open>Range selector\<close>

text \<open>
  The pointer handlers get the percentage computed from the pointer position and the
  clock readings of their \<^verbatim>\<open>new Date()\<close> calls.
\<close>

definition handleTimelineMouseDown :: "TimeZone \<Rightarrow> real \<Rightarrow> int \<Rightarrow> state \<Rightarrow> state" where
  "handleTimelineMouseDown z percentage now s =
     (let clampedPercentage = max 0 (min 100 percentage);
          totalMinutesInDay = 24 * 60;
          minutesFromMidnight = numMul (numDiv clampedPercentage 100) totalMinutesInDay;
          hours = \<lfloor>numDiv minutesFromMidnight 60\<rfloor>;
          minutes = \<lfloor>js_rem minutesFromMidnight 60\<rfloor>;
          localDate = setHours z now hours minutes 0 0;
          utcDate = utcDateOf localDate
      in s\<lparr>isDragging := True, dragStart := Some clampedPercentage,
           selectionRange := Some \<lparr>range_start = utcDate, range_end = utcDate\<rparr>\<rparr>)"





text \<open>
  The minutes from midnight the handlers compute from a clamped percent, and the local
  date they build from it and from a clock reading: hour and minute of the position, set
  on the local day of the reading.
\<close>

definition minutesOfPercent :: "real \<Rightarrow> real" where
  "minutesOfPercent p = numMul (numDiv p 100) (24 * 60)"

definition instantOfPercent :: "TimeZone \<Rightarrow> int \<Rightarrow> real \<Rightarrow> int" where
  "instantOfPercent z now p =
     setHours z now \<lfloor>numDiv (minutesOfPercent p) 60\<rfloor> \<lfloor>js_rem (minutesOfPercent p) 60\<rfloor> 0 0"









section \<open>Query engine\<close>

text \<open>\<^verbatim>\<open>String.prototype.trim\<close> on byte strings: white space and line terminators.\<close>

definition isWhiteSpace :: "char \<Rightarrow> bool" where
  "isWhiteSpace c =
     (c = CHR 0x09 \<or> c = CHR 0x0A \<or> c = CHR 0x0B \<or> c = CHR 0x0C \<or> c = CHR 0x0D \<or>
      c = CHR 0x20 \<or> c = CHR 0xA0)"

definition trim :: "string \<Rightarrow> string" where
  "trim s = rev (dropWhile isWhiteSpace (rev (dropWhile isWhiteSpace s)))"

text \<open>
  A chunk of the completion stream: the identifier \<^verbatim>\<open>generateId()\<close> returns for the
  message written at this chunk, and the delta text when the chunk has one.
\<close>

type_synonym chunk = "string \<times> string option"

definition chunkText :: "chunk \<Rightarrow> string" where
  "chunkText c = (case snd c of None \<Rightarrow> [] | Some t \<Rightarrow> t)"

text \<open>
  What the completion service does with a request: the call fails, the stream ends after
  its chunks, or the stream fails after some chunks.
\<close>

datatype response = CreateFailed | Completed "chunk list" | Broken "chunk list"

definition relevantFrames ::
  "(string \<Rightarrow> int option) \<Rightarrow> TimeRange \<Rightarrow> StreamTimeSeriesResponse list
    \<Rightarrow> StreamTimeSeriesResponse list" where
  "relevantFrames getTime r fs =
     filter (\<lambda>f. case getTime (timestamp f) of
                   None \<Rightarrow> False
                 | Some t \<Rightarrow> range_start r \<le> t \<and> t \<le> range_end r) fs"

text \<open>
  \<^verbatim>\<open>handleAiSubmit\<close> in pieces: the statements before the \<^verbatim>\<open>await\<close>, the empty
  assistant message written when the stream is there, the body of the loop over the
  chunks with its local \<^verbatim>\<open>fullResponse\<close>, the \<^verbatim>\<open>catch\<close> and the \<^verbatim>\<open>finally\<close>
  block.
\<close>

definition submitStart :: "(string \<Rightarrow> int option) \<Rightarrow> string \<Rightarrow> TimeRange \<Rightarrow> state \<Rightarrow> state" where
  "submitStart getTime uid r s =
     s\<lparr>chatMessages := chatMessages s @ [\<lparr>msg_id = uid, role = User, content = aiInput s\<rparr>],
       aiInput := [],
       isAiLoading := True,
       console := console s @ [''messages''],
       abortControllerRef := Some False,
       isStreaming := True,
       requests := requests s @
         [\<lparr>rq_agent = selectedAgent s, rq_frames = relevantFrames getTime r (frames s),
           rq_history = chatMessages s, rq_question = aiInput s\<rparr>]\<rparr>"

definition streamOpened :: "string \<Rightarrow> state \<Rightarrow> state" where
  "streamOpened aid s =
     s\<lparr>chatMessages := chatMessages s @ [\<lparr>msg_id = aid, role = Assistant, content = []\<rparr>]\<rparr>"

definition onChunk :: "string \<times> state \<Rightarrow> chunk \<Rightarrow> string \<times> state" where
  "onChunk fs c =
     (let fullResponse = fst fs @ chunkText c; s = snd fs
      in (fullResponse,
          s\<lparr>chatMessages := butlast (chatMessages s) @
               [\<lparr>msg_id = fst c, role = Assistant, content = fullResponse\<rparr>]\<rparr>))"

definition streamChunks :: "chunk list \<Rightarrow> state \<Rightarrow> string \<times> state" where
  "streamChunks cs s = foldl onChunk ([], s) cs"

definition submitCatch :: "state \<Rightarrow> state" where
  "submitCatch s =
     s\<lparr>console := console s @ [''Error generating AI response:''],
       toasts := toasts s @ [''Failed to generate AI response. Please try again.'']\<rparr>"

definition submitFinally :: "state \<Rightarrow> state" where
  "submitFinally s = s\<lparr>isAiLoading := False, isStreaming := False\<rparr>"

definition handleAiSubmit ::
  "(string \<Rightarrow> int option) \<Rightarrow> string \<Rightarrow> string \<Rightarrow> response \<Rightarrow> state \<Rightarrow> state" where
  "handleAiSubmit getTime uid aid resp s =
     (if trim (aiInput s) = [] then s
      else
        case selectionRange s of
          None \<Rightarrow> s
        | Some r \<Rightarrow>
            let s1 = submitStart getTime uid r s
            in submitFinally
                 (case resp of
                    CreateFailed \<Rightarrow> submitCatch s1
                  | Completed cs \<Rightarrow> snd (streamChunks cs (streamOpened aid s1))
                  | Broken cs \<Rightarrow> submitCatch (snd (streamChunks cs (streamOpened aid s1)))))"

text \<open>The close button of the panel (the dismiss action).\<close>

definition dismiss :: "state \<Rightarrow> state" where
  "dismiss s =
     s\<lparr>selectionRange := None, isAiPanelExpanded := False, chatMessages := [], aiInput := []\<rparr>"

text \<open>
  Reading the conversation: the messages after the most recent user message, and the
  assistant messages among them. A query is live while the streaming flag is set and the
  signal of its abort controller has not been aborted.
\<close>

definition afterLastUser :: "Message list \<Rightarrow> Message list" where
  "afterLastUser ms = rev (takeWhile (\<lambda>m. role m \<noteq> User) (rev ms))"

definition assistantCount :: "Message list \<Rightarrow> nat" where
  "assistantCount ms = length (filter (\<lambda>m. role m = Assistant) ms)"

definition liveQuery :: "state \<Rightarrow> bool" where
  "liveQuery s = (isStreaming s \<and> abortControllerRef s = Some False)"

text \<open>
  Reading the store: a frame is later than another when both timestamps denote instants
  and the first instant is the greater one; the store is strictly descending when every
  frame is later than all frames behind it. A Frame Batch on the wire is a payload with
  both properties.
\<close>

definition laterThan ::
  "(string \<Rightarrow> int option) \<Rightarrow> StreamTimeSeriesResponse \<Rightarrow> StreamTimeSeriesResponse \<Rightarrow> bool" where
  "laterThan getTime a b =
     (case (getTime (timestamp a), getTime (timestamp b)) of
        (Some ta, Some tb) \<Rightarrow> tb < ta
      | _ \<Rightarrow> False)"

definition strictlyDescending ::
  "(string \<Rightarrow> int option) \<Rightarrow> StreamTimeSeriesResponse list \<Rightarrow> bool" where
  "strictlyDescending getTime fs = sorted_wrt (laterThan getTime) fs"

definition batchEvent :: "StreamTimeSeriesResponse \<Rightarrow> payload" where
  "batchEvent b = Data (Some (timestamp b)) (Some (devices b))"

text \<open>
  A parsed payload lacks a field of a Frame Batch when it is \<^verbatim>\<open>null\<close>, has no
  timestamp or the empty string as timestamp, or has no devices property.
\<close>

definition lacksFields :: "payload \<Rightarrow> bool" where
  "lacksFields ev =
     (case ev of
        Null \<Rightarrow> True
      | Data tso dso \<Rightarrow> tso = None \<or> tso = Some [] \<or> dso = None
      | _ \<Rightarrow> False)"

section \<open>Sample inputs\<close>

text \<open>
  Inputs for running the model: three Frame Batches, two of them with timestamp strings
  that denote one instant, and a table that gives the time values of their timestamps.
\<close>

definition exampleGetTime :: "string \<Rightarrow> int option" where
  "exampleGetTime =
     map_of [(''2024-01-01T00:00:00Z'', 1704067200000),
             (''2024-01-01T00:00:00.000Z'', 1704067200000),
             (''2024-01-01T00:00:01Z'', 1704067201000)]"

definition exampleDevice :: DeviceFrameResponse where
  "exampleDevice =
     \<lparr>device_id = ''monitor_1'', frame = ''iVBORw0KGgo='',
      metadata = \<lparr>file_path = ''a.mp4'', app_name = ''Terminal'', window_name = ''zsh'',
                  ocr_text = ''ls'', md_timestamp = []\<rparr>,
      audio = []\<rparr>"

definition frameT :: StreamTimeSeriesResponse where
  "frameT = \<lparr>timestamp = ''2024-01-01T00:00:00Z'', devices = [exampleDevice]\<rparr>"

definition frameT' :: StreamTimeSeriesResponse where
  "frameT' = \<lparr>timestamp = ''2024-01-01T00:00:00.000Z'', devices = [exampleDevice]\<rparr>"

definition frameT1 :: StreamTimeSeriesResponse where
  "frameT1 = \<lparr>timestamp = ''2024-01-01T00:00:01Z'', devices = [exampleDevice]\<rparr>"

text \<open>
  Two zones: two hours east of UTC all year, and New York around 10 March 2024, where the
  local hour from 02:00 to 03:00 is skipped (the zone goes from five to four hours west
  of UTC at 07:00 UTC).
\<close>

definition twoHoursEast :: TimeZone where
  "twoHoursEast = fixedZone 7200000"


text \<open>A state with a committed selection, the panel open and a question typed.\<close>

definition exampleRange :: TimeRange where
  "exampleRange = \<lparr>range_start = 1704067200000, range_end = 1704067201000\<rparr>"

definition exampleAsking :: state where
  "exampleAsking =
     initial_state\<lparr>selectionRange := Some exampleRange, isAiPanelExpanded := True,
                   aiInput := ''what did I do?''\<rparr>"



section \<open>The ingestor keeps the store ordered\<close>

lemma mset_insert_by: "mset (insert_by cmp x xs) = add_mset x (mset xs)"
  by (induction xs) auto

lemma mset_sort_by: "mset (sort_by cmp xs) = mset xs"
  unfolding sort_by_def by (induction xs) (auto simp: mset_insert_by)

lemma set_insert_by: "set (insert_by cmp x xs) = insert x (set xs)"
  by (induction xs) auto

lemma set_sort_by: "set (sort_by cmp xs) = set xs"
  unfolding sort_by_def by (induction xs) (auto simp: set_insert_by)

lemma sorted_insert_by:
  assumes tr: "\<And>a b c. R a b \<Longrightarrow> R b c \<Longrightarrow> R a c"
    and "sorted_wrt R xs"
    and "\<forall>y\<in>set xs. if cmp x y \<le> 0 then R x y else R y x"
  shows "sorted_wrt R (insert_by cmp x xs)"
  using assms(2,3)
proof (induction xs)
  case Nil
  then show ?case by simp
next
  case (Cons y ys)
  from Cons.prems(1) have ys: "sorted_wrt R ys" and yall: "\<forall>z\<in>set ys. R y z"
    by simp_all
  show ?case
  proof (cases "cmp x y \<le> 0")
    case True
    with Cons.prems(2) have xy: "R x y" by simp
    have "\<forall>z\<in>set ys. R x z"
      using yall xy tr by blast
    with True xy ys yall show ?thesis by simp
  next
    case False
    with Cons.prems(2) have yx: "R y x" by simp
    have "\<forall>z\<in>set ys. if cmp x z \<le> 0 then R x z else R z x"
      using Cons.prems(2) by simp
    with Cons.IH ys have "sorted_wrt R (insert_by cmp x ys)" by blast
    with False yx yall show ?thesis by (simp add: set_insert_by)
  qed
qed

lemma laterThan_trans: "laterThan g a b \<Longrightarrow> laterThan g b c \<Longrightarrow> laterThan g a c"
  by (simp add: laterThan_def split: option.splits)

lemma compareFrames_laterThan:
  assumes "g (timestamp a) \<noteq> None" "g (timestamp b) \<noteq> None" "g (timestamp a) \<noteq> g (timestamp b)"
  shows "if compareFrames g a b \<le> 0 then laterThan g a b else laterThan g b a"
  using assms by (auto simp: compareFrames_def laterThan_def split: option.splits)

lemma sorted_sort_by_frames:
  assumes "\<forall>b\<in>set xs. g (timestamp b) \<noteq> None"
    and "distinct (map (\<lambda>b. g (timestamp b)) xs)"
  shows "sorted_wrt (laterThan g) (sort_by (compareFrames g) xs)"
  using assms
proof (induction xs)
  case Nil
  then show ?case by (simp add: sort_by_def)
next
  case (Cons x xs)
  have IH: "sorted_wrt (laterThan g) (sort_by (compareFrames g) xs)"
    using Cons by simp
  have step: "sort_by (compareFrames g) (x # xs) = insert_by (compareFrames g) x (sort_by (compareFrames g) xs)"
    by (simp add: sort_by_def)
  have *: "\<forall>y\<in>set (sort_by (compareFrames g) xs).
          if compareFrames g x y \<le> 0 then laterThan g x y else laterThan g y x"
  proof
    fix y assume "y \<in> set (sort_by (compareFrames g) xs)"
    then have y: "y \<in> set xs" by (simp add: set_sort_by)
    from Cons.prems(1) y have a: "g (timestamp x) \<noteq> None" and b: "g (timestamp y) \<noteq> None"
      by simp_all
    from Cons.prems(2) y have c: "g (timestamp x) \<noteq> g (timestamp y)"
      by force
    from a b c show "if compareFrames g x y \<le> 0 then laterThan g x y else laterThan g y x"
      by (rule compareFrames_laterThan)
  qed
  show ?case
    unfolding step
  proof (rule sorted_insert_by)
    fix a b c
    assume "laterThan g a b" "laterThan g b c"
    then show "laterThan g a c" by (rule laterThan_trans)
  next
    show "sorted_wrt (laterThan g) (sort_by (compareFrames g) xs)" by (rule IH)
  next
    show "\<forall>y\<in>set (sort_by (compareFrames g) xs).
          if compareFrames g x y \<le> 0 then laterThan g x y else laterThan g y x" by (rule *)
  qed
qed

lemma addFrame_fresh:
  assumes "\<forall>f\<in>set prev. timestamp f \<noteq> timestamp d"
  shows "addFrame g d prev = sort_by (compareFrames g) (prev @ [d])"
  using assms by (simp add: addFrame_def list_ex_iff)

lemma addFrame_dup:
  assumes "\<exists>f\<in>set prev. timestamp f = timestamp d"
  shows "addFrame g d prev = prev"
  using assms by (simp add: addFrame_def list_ex_iff)

lemma onmessage_batch:
  assumes "timestamp b \<noteq> []"
  shows "frames (onmessage g s (batchEvent b)) = addFrame g b (frames s)"
proof -
  have eq: "\<lparr>timestamp = timestamp b, devices = devices b\<rparr> = b" by (cases b) simp
  show ?thesis using assms by (simp add: onmessage_def batchEvent_def eq)
qed

lemma ingest_batches:
  assumes "\<forall>b\<in>set bs. timestamp b \<noteq> [] \<and> g (timestamp b) \<noteq> None"
    and "distinct (map (\<lambda>b. g (timestamp b)) (frames s @ bs))"
    and "sorted_wrt (laterThan g) (frames s)"
    and "\<forall>b\<in>set (frames s). g (timestamp b) \<noteq> None"
  shows "sorted_wrt (laterThan g) (frames (foldl (onmessage g) s (map batchEvent bs)))
       \<and> mset (frames (foldl (onmessage g) s (map batchEvent bs))) = mset (frames s) + mset bs"
  using assms
proof (induction bs arbitrary: s)
  case Nil
  then show ?case by simp
next
  case (Cons b bs)
  let ?s = "onmessage g s (batchEvent b)"
  have fresh: "\<forall>f\<in>set (frames s). timestamp f \<noteq> timestamp b"
    using Cons.prems(2) by (auto simp: image_iff)
  have fr: "frames ?s = sort_by (compareFrames g) (frames s @ [b])"
    using Cons.prems(1) fresh by (simp add: onmessage_batch addFrame_fresh)
  have ms: "mset (frames ?s) = mset (frames s @ [b])"
    by (simp add: fr mset_sort_by)
  then have st: "set (frames ?s) = set (frames s @ [b])"
    by (rule mset_eq_setD)
  have d: "distinct (map (\<lambda>b. g (timestamp b)) (frames ?s @ bs))"
  proof -
    have "mset (map (\<lambda>b. g (timestamp b)) (frames ?s @ bs))
        = mset (map (\<lambda>b. g (timestamp b)) (frames s @ b # bs))"
      using ms by simp
    then show ?thesis using Cons.prems(2) by (metis mset_eq_imp_distinct_iff)
  qed
  have v: "\<forall>b\<in>set (frames ?s). g (timestamp b) \<noteq> None"
    using st Cons.prems(1,4) by auto
  have v2: "\<forall>b\<in>set bs. timestamp b \<noteq> [] \<and> g (timestamp b) \<noteq> None"
    using Cons.prems(1) by simp
  have d1: "distinct (map (\<lambda>b. g (timestamp b)) (frames s @ [b]))"
    using Cons.prems(2) by auto
  have v1: "\<forall>x\<in>set (frames s @ [b]). g (timestamp x) \<noteq> None"
    using Cons.prems(1,4) by auto
  have so: "sorted_wrt (laterThan g) (frames ?s)"
    unfolding fr using v1 d1 by (rule sorted_sort_by_frames)
  from Cons.IH[OF v2 d so v] ms show ?case by simp
qed

text \<open>
  Claim C1 fails for timestamps that are distinct as strings and denote one instant: both
  batches are stored, and neither is later than the other.
\<close>

theorem C1_counterexample:
  "timestamp frameT \<noteq> timestamp frameT'
   \<and> frames (foldl (onmessage exampleGetTime) initial_state (map batchEvent [frameT, frameT']))
       = [frameT, frameT']
   \<and> \<not> strictlyDescending exampleGetTime
         (frames (foldl (onmessage exampleGetTime) initial_state (map batchEvent [frameT, frameT'])))"
proof -
  have ne: "timestamp frameT \<noteq> []" "timestamp frameT' \<noteq> []"
      "timestamp frameT \<noteq> timestamp frameT'"
    by (simp_all add: frameT_def frameT'_def)
  have h1: "frames initial_state = []" by (simp add: initial_state_def)
  have t: "exampleGetTime (timestamp frameT) = Some 1704067200000"
      "exampleGetTime (timestamp frameT') = Some 1704067200000"
    by (simp_all add: exampleGetTime_def frameT_def frameT'_def)
  have f: "frames (foldl (onmessage exampleGetTime) initial_state (map batchEvent [frameT, frameT']))
       = [frameT, frameT']"
    using ne by (simp add: onmessage_batch h1 addFrame_def sort_by_def compareFrames_def t)
  have "\<not> strictlyDescending exampleGetTime [frameT, frameT']"
    by (simp add: strictlyDescending_def laterThan_def t)
  with ne(3) f show ?thesis by simp
qed

text \<open>
  Claim C1, amended. Starting from an empty store, after the message handler has
  processed any finite sequence of Frame Batches whose timestamps are non-empty strings
  that parse to pairwise distinct instants, the store is strictly descending by instant
  and holds exactly the batches of the sequence, in whatever order they arrived.
\<close>

theorem C1_store_strictly_descending:
  assumes "frames s = []"
    and "\<forall>b\<in>set bs. timestamp b \<noteq> [] \<and> getTime (timestamp b) \<noteq> None"
    and "distinct (map (\<lambda>b. getTime (timestamp b)) bs)"
  shows "strictlyDescending getTime (frames (foldl (onmessage getTime) s (map batchEvent bs)))
       \<and> mset (frames (foldl (onmessage getTime) s (map batchEvent bs))) = mset bs"
proof -
  have "sorted_wrt (laterThan getTime) (frames s)" "\<forall>b\<in>set (frames s). getTime (timestamp b) \<noteq> None"
    "distinct (map (\<lambda>b. getTime (timestamp b)) (frames s @ bs))"
    using assms by simp_all
  from ingest_batches[OF assms(2) this(3) this(1) this(2)] assms(1)
  show ?thesis by (simp add: strictlyDescending_def)
qed

lemma ex_times:
  "exampleGetTime (timestamp frameT) = Some 1704067200000"
  "exampleGetTime (timestamp frameT') = Some 1704067200000"
  "exampleGetTime (timestamp frameT1) = Some 1704067201000"
  by (simp_all add: exampleGetTime_def frameT_def frameT'_def frameT1_def)

text \<open>Two batches arriving oldest first end up newest first.\<close>

theorem C1_witness:
  "strictlyDescending exampleGetTime
     (frames (foldl (onmessage exampleGetTime) initial_state (map batchEvent [frameT, frameT1])))
   \<and> frames (foldl (onmessage exampleGetTime) initial_state (map batchEvent [frameT, frameT1]))
       = [frameT1, frameT]"
proof -
  have h1: "frames initial_state = []" by (simp add: initial_state_def)
  have h2: "\<forall>b\<in>set [frameT, frameT1]. timestamp b \<noteq> [] \<and> exampleGetTime (timestamp b) \<noteq> None"
    by (simp add: ex_times) (simp add: frameT_def frameT1_def)
  have h3: "distinct (map (\<lambda>b. exampleGetTime (timestamp b)) [frameT, frameT1])"
    by (simp add: ex_times)
  have ne: "timestamp frameT \<noteq> []" "timestamp frameT1 \<noteq> []" "timestamp frameT \<noteq> timestamp frameT1"
    by (simp_all add: frameT_def frameT1_def)
  have "frames (foldl (onmessage exampleGetTime) initial_state (map batchEvent [frameT, frameT1]))
       = [frameT1, frameT]"
    using ne by (simp add: onmessage_batch h1 addFrame_def sort_by_def compareFrames_def ex_times)
  with C1_store_strictly_descending[OF h1 h2 h3] show ?thesis by simp
qed

text \<open>
  Claim C6. A payload whose timestamp string is the timestamp of a stored batch leaves
  the store as it is: same contents, same number of batches.
\<close>

theorem C6_duplicate_timestamp_noop:
  assumes "\<exists>f\<in>set (frames s). timestamp f = ts"
  shows "frames (onmessage getTime s (Data (Some ts) ds)) = frames s
       \<and> length (frames (onmessage getTime s (Data (Some ts) ds))) = length (frames s)"
proof (cases ds)
  case None
  then show ?thesis by (simp add: onmessage_def)
next
  case (Some devs)
  have "addFrame getTime \<lparr>timestamp = ts, devices = devs\<rparr> (frames s) = frames s"
    using assms by (intro addFrame_dup) simp
  with Some show ?thesis by (simp add: onmessage_def)
qed

text \<open>A second payload for a stored timestamp, here with no devices, changes nothing.\<close>

theorem C6_witness:
  "frames (onmessage exampleGetTime (initial_state\<lparr>frames := [frameT1, frameT]\<rparr>)
       (Data (Some ''2024-01-01T00:00:00Z'') (Some []))) = [frameT1, frameT]"
proof -
  have "\<exists>f\<in>set (frames (initial_state\<lparr>frames := [frameT1, frameT]\<rparr>)).
          timestamp f = ''2024-01-01T00:00:00Z''"
    by (simp add: frameT_def)
  from C6_duplicate_timestamp_noop[OF this] show ?thesis by simp
qed

text \<open>
  Claim C10. Deduplication compares the timestamp strings and the sort compares their
  time values: a Frame Batch whose non-empty timestamp string differs from the string of
  every stored batch is inserted, whatever instant it denotes; when the store holds one
  batch of the same instant, the new batch is placed behind it, so the store holds two
  batches for one instant and their order is the order of arrival.
\<close>

theorem C10_string_dedup_inserts:
  assumes "ts \<noteq> []" and "\<forall>f\<in>set (frames s). timestamp f \<noteq> ts"
  shows "mset (frames (onmessage getTime s (Data (Some ts) (Some ds))))
           = add_mset \<lparr>timestamp = ts, devices = ds\<rparr> (mset (frames s))
       \<and> (\<forall>f. frames s = [f] \<and> getTime (timestamp f) = getTime ts \<longrightarrow>
            frames (onmessage getTime s (Data (Some ts) (Some ds)))
              = [f, \<lparr>timestamp = ts, devices = ds\<rparr>])"
proof -
  let ?d = "\<lparr>timestamp = ts, devices = ds\<rparr>"
  have fr: "frames (onmessage getTime s (Data (Some ts) (Some ds)))
              = sort_by (compareFrames getTime) (frames s @ [?d])"
    using assms by (simp add: onmessage_def addFrame_fresh)
  have "compareFrames getTime f ?d = 0" if "getTime (timestamp f) = getTime ts" for f
    using that by (simp add: compareFrames_def split: option.splits)
  then show ?thesis
    unfolding fr by (simp add: mset_sort_by) (simp add: sort_by_def)
qed

text \<open>Two spellings of one instant: each arrival order gives its own store.\<close>

theorem C10_witness:
  "frames (onmessage exampleGetTime (initial_state\<lparr>frames := [frameT]\<rparr>) (batchEvent frameT'))
     = [frameT, frameT']
   \<and> frames (onmessage exampleGetTime (initial_state\<lparr>frames := [frameT']\<rparr>) (batchEvent frameT))
     = [frameT', frameT]
   \<and> exampleGetTime (timestamp frameT) = exampleGetTime (timestamp frameT')"
proof -
  have a: "timestamp frameT' \<noteq> []" "\<forall>f\<in>set (frames (initial_state\<lparr>frames := [frameT]\<rparr>)). timestamp f \<noteq> timestamp frameT'"
    by (simp_all add: frameT_def frameT'_def)
  have b: "timestamp frameT \<noteq> []" "\<forall>f\<in>set (frames (initial_state\<lparr>frames := [frameT']\<rparr>)). timestamp f \<noteq> timestamp frameT"
    by (simp_all add: frameT_def frameT'_def)
  have e: "\<lparr>timestamp = timestamp frameT, devices = devices frameT\<rparr> = frameT"
      "\<lparr>timestamp = timestamp frameT', devices = devices frameT'\<rparr> = frameT'"
    by simp_all
  from C10_string_dedup_inserts[OF a, of exampleGetTime "devices frameT'"]
       C10_string_dedup_inserts[OF b, of exampleGetTime "devices frameT"]
  show ?thesis by (simp add: batchEvent_def ex_times e)
qed

text \<open>
  Claim C3 fails for an empty devices list: the handler tests that the devices property
  is present, and an empty list is present. The batch is stored and the loading flag is
  cleared.
\<close>

theorem C3_counterexample:
  "frames (onmessage exampleGetTime initial_state (Data (Some ''2024-01-01T00:00:00Z'') (Some [])))
     \<noteq> frames initial_state
   \<and> isLoading (onmessage exampleGetTime initial_state (Data (Some ''2024-01-01T00:00:00Z'') (Some [])))
     \<noteq> isLoading initial_state"
  by (simp add: onmessage_def initial_state_def addFrame_def sort_by_def)

text \<open>
  Claim C3, amended. A parsed payload that lacks a timestamp (the property is absent or
  the empty string, or the payload is \<^verbatim>\<open>null\<close>) or lacks a devices property is
  dropped: nothing but the console changes, so the store, the playback cursor, the
  loading flag, the error flag and the toasts are as before; the console is unchanged, or
  has the one line of the parse failure more (for \<^verbatim>\<open>null\<close>).
\<close>

theorem C3_payload_without_fields_dropped:
  assumes "lacksFields ev"
  shows "onmessage getTime s ev = s\<lparr>console := console (onmessage getTime s ev)\<rparr>
       \<and> (console (onmessage getTime s ev) = console s
          \<or> console (onmessage getTime s ev) = console s @ [''failed to parse frame data:''])
       \<and> frames (onmessage getTime s ev) = frames s
       \<and> currentFrame (onmessage getTime s ev) = currentFrame s
       \<and> currentIndex (onmessage getTime s ev) = currentIndex s
       \<and> isLoading (onmessage getTime s ev) = isLoading s
       \<and> error (onmessage getTime s ev) = error s
       \<and> toasts (onmessage getTime s ev) = toasts s"
proof (cases ev)
  case Unparsable
  with assms show ?thesis by (simp add: lacksFields_def)
next
  case Null
  then show ?thesis by (simp add: onmessage_def)
next
  case KeepAlive
  with assms show ?thesis by (simp add: lacksFields_def)
next
  case (Data tso dso)
  with assms have "tso = None \<or> tso = Some [] \<or> dso = None" by (simp add: lacksFields_def)
  then have "onmessage getTime s (Data tso dso) = s"
    by (auto simp: onmessage_def split: option.splits)
  with Data show ?thesis by simp
qed

text \<open>
  A payload without timestamp and a payload without devices leave the state alone; the
  payload \<^verbatim>\<open>null\<close> adds a line to the console.
\<close>

theorem C3_witness:
  "onmessage exampleGetTime (initial_state\<lparr>frames := [frameT]\<rparr>) (Data None (Some [exampleDevice]))
     = initial_state\<lparr>frames := [frameT]\<rparr>
   \<and> onmessage exampleGetTime (initial_state\<lparr>frames := [frameT]\<rparr>)
       (Data (Some ''2024-01-01T00:00:01Z'') None)
     = initial_state\<lparr>frames := [frameT]\<rparr>
   \<and> frames (onmessage exampleGetTime (initial_state\<lparr>frames := [frameT]\<rparr>) Null) = [frameT]
   \<and> console (onmessage exampleGetTime (initial_state\<lparr>frames := [frameT]\<rparr>) Null)
     = [''failed to parse frame data:'']"
proof -
  have l: "lacksFields (Data None (Some [exampleDevice]))"
      "lacksFields (Data (Some ''2024-01-01T00:00:01Z'') None)" "lacksFields Null"
    by (simp_all add: lacksFields_def)
  have c: "console (onmessage exampleGetTime (initial_state\<lparr>frames := [frameT]\<rparr>) Null)
     = [''failed to parse frame data:'']"
    by (simp add: onmessage_def initial_state_def)
  have d: "onmessage exampleGetTime (initial_state\<lparr>frames := [frameT]\<rparr>)
       (Data None (Some [exampleDevice])) = initial_state\<lparr>frames := [frameT]\<rparr>"
      "onmessage exampleGetTime (initial_state\<lparr>frames := [frameT]\<rparr>)
       (Data (Some ''2024-01-01T00:00:01Z'') None) = initial_state\<lparr>frames := [frameT]\<rparr>"
    by (simp_all add: onmessage_def)
  from C3_payload_without_fields_dropped[OF l(3), of exampleGetTime
      "initial_state\<lparr>frames := [frameT]\<rparr>"]
  have "frames (onmessage exampleGetTime (initial_state\<lparr>frames := [frameT]\<rparr>) Null) = [frameT]"
    by simp
  with c d show ?thesis by simp
qed


section \<open>Rounding to binary64\<close>





lemma roundTiesToEven_of_int [simp]: "roundTiesToEven (of_int n) = n"
  by (simp add: roundTiesToEven_def)






lemma ulp_pos [simp]: "0 < ulp x"
  by (simp add: ulp_def)

lemma ulp_nonneg [simp]: "0 \<le> ulp x"
  by (simp add: ulp_def)

lemma ulp_nonzero [simp]: "ulp x \<noteq> 0"
  using ulp_pos[of x] by linarith

























section \<open>Calendar fields and the instant of a percent position\<close>














lemma div_bounds:
  fixes a n :: int
  assumes "0 < n"
  shows "n * (a div n) \<le> a \<and> a - n < n * (a div n)"
proof -
  have "n * (a div n) + a mod n = a" by simp
  moreover have "0 \<le> a mod n" "a mod n < n" using assms by simp_all
  ultimately show ?thesis by linarith
qed

lemma year_estimate_low:
  fixes q d A B C :: int
  assumes "4 * A \<le> q" "q + 68 - 100 < 100 * B" "400 * C \<le> q + 368" "146097 * q \<le> d * 400"
  shows "365 * (q - 1) + A - B + C \<le> d"
proof -
  have s1: "400 * A \<le> 100 * q" using assms(1) by linarith
  have s2: "4 * q - 128 \<le> 400 * B" using assms(2) by linarith
  have "400 * (365 * (q - 1) + A - B + C) = 146000 * q - 146000 + 400 * A - 400 * B + 400 * C"
    by (simp add: algebra_simps)
  also have "\<dots> \<le> 146000 * q - 146000 + 100 * q - (4 * q - 128) + (q + 368)"
    using s1 s2 assms(3) by linarith
  also have "\<dots> \<le> 146097 * q" by linarith
  also have "\<dots> \<le> 400 * d" using assms(4) by linarith
  finally show ?thesis by simp
qed

lemma year_estimate_high:
  fixes q d A B C :: int
  assumes "q + 3 - 4 < 4 * A" "100 * B \<le> q + 71" "q + 371 - 400 < 400 * C"
    "d * 400 - 146097 < 146097 * q"
  shows "d < 365 * (q + 2) + A - B + C"
proof -
  have s1: "100 * q - 100 \<le> 400 * A" using assms(1) by linarith
  have s2: "400 * B \<le> 4 * q + 284" using assms(2) by linarith
  have "400 * d < 146097 * q + 146097" using assms(4) by linarith
  also have "\<dots> \<le> 146000 * q + 292000 + (100 * q - 100) - (4 * q + 284) + (q - 29)"
    by linarith
  also have "\<dots> \<le> 146000 * q + 292000 + 400 * A - 400 * B + 400 * C"
    using s1 s2 assms(3) by linarith
  also have "\<dots> = 400 * (365 * (q + 2) + A - B + C)"
    by (simp add: algebra_simps)
  finally show ?thesis by simp
qed

lemma DayFromYear_estimate:
  fixes d :: int
  defines "q \<equiv> (d * 400) div 146097"
  shows "DayFromYear (1970 + q - 1) \<le> d \<and> d < DayFromYear (1970 + q + 2)"
proof -
  have q: "146097 * q \<le> d * 400" "d * 400 - 146097 < 146097 * q"
    using div_bounds[of 146097 "d * 400"] by (simp_all add: q_def)
  define A1 where "A1 = q div 4"
  define B1 where "B1 = (q + 68) div 100"
  define C1 where "C1 = (q + 368) div 400"
  define A2 where "A2 = (q + 3) div 4"
  define B2 where "B2 = (q + 71) div 100"
  define C2 where "C2 = (q + 371) div 400"
  have e1: "DayFromYear (1970 + q - 1) = 365 * (q - 1) + A1 - B1 + C1"
    by (simp add: DayFromYear_def add.commute A1_def B1_def C1_def)
  have e2: "DayFromYear (1970 + q + 2) = 365 * (q + 2) + A2 - B2 + C2"
    by (simp add: DayFromYear_def add.commute A2_def B2_def C2_def)
  have a1: "4 * A1 \<le> q" "q + 68 - 100 < 100 * B1" "400 * C1 \<le> q + 368"
    unfolding A1_def B1_def C1_def
    using div_bounds[of 4 q] div_bounds[of 100 "q + 68"] div_bounds[of 400 "q + 368"]
    by simp_all
  have a2: "q + 3 - 4 < 4 * A2" "100 * B2 \<le> q + 71" "q + 371 - 400 < 400 * C2"
    unfolding A2_def B2_def C2_def
    using div_bounds[of 4 "q + 3"] div_bounds[of 100 "q + 71"] div_bounds[of 400 "q + 371"]
    by simp_all
  have "DayFromYear (1970 + q - 1) \<le> d"
    unfolding e1 using a1 q(1) by (rule year_estimate_low)
  moreover have "d < DayFromYear (1970 + q + 2)"
    unfolding e2 using a2 q(2) by (rule year_estimate_high)
  ultimately show ?thesis ..
qed

text \<open>The year computed is the standard's: the largest year that starts at or before \<open>t\<close>.\<close>

lemma YearFromTime_bounds:
  "DayFromYear (YearFromTime t) \<le> Day t \<and> Day t < DayFromYear (YearFromTime t + 1)"
proof -
  define y where "y = 1970 + (Day t * 400) div 146097"
  have 1: "DayFromYear (y - 1) \<le> Day t" and 2: "Day t < DayFromYear (y + 2)"
    using DayFromYear_estimate[of "Day t"] by (simp_all add: y_def)
  have 3: "y + 1 + 1 = y + 2" by simp
  show ?thesis
    using 1 2 by (simp add: YearFromTime_def Let_def y_def[symmetric] 3)
qed






lemma mouseDown_eq:
  "handleTimelineMouseDown z p now s =
     s\<lparr>isDragging := True, dragStart := Some (max 0 (min 100 p)),
       selectionRange := Some \<lparr>range_start = utcDateOf (instantOfPercent z now (max 0 (min 100 p))),
                               range_end = utcDateOf (instantOfPercent z now (max 0 (min 100 p)))\<rparr>\<rparr>"
  by (simp add: handleTimelineMouseDown_def instantOfPercent_def minutesOfPercent_def Let_def)


text \<open>
  A time value is the date made of its own fields, so in a zone of one offset setting the
  minutes two back moves the time value two minutes back.
\<close>

lemma time_value_fields:
  "MakeDate (Day t) (MakeTime (HourFromTime t) (MinFromTime t) (SecFromTime t) (msFromTime t)) = t"
proof -
  define x1 where "x1 = t div 1000"
  define x2 where "x2 = x1 div 60"
  define x3 where "x3 = x2 div 60"
  define x4 where "x4 = x3 div 24"
  have m: "t div 60000 = x2"
    using zdiv_zmult2_eq[of 60 t 1000] by (simp add: x1_def x2_def)
  have h: "t div 3600000 = x3"
    using zdiv_zmult2_eq[of 60 t 60000] by (simp add: m x3_def)
  have d: "t div 86400000 = x4"
    using zdiv_zmult2_eq[of 24 t 3600000] by (simp add: h x4_def)
  have e0: "t = 1000 * x1 + t mod 1000" by (simp add: x1_def)
  have e1: "x1 = 60 * x2 + x1 mod 60" by (simp add: x2_def)
  have e2: "x2 = 60 * x3 + x2 mod 60" by (simp add: x3_def)
  have e3: "x3 = 24 * x4 + x3 mod 24" by (simp add: x4_def)
  have "x4 * 86400000 + (x3 mod 24 * 3600000 + x2 mod 60 * 60000 + x1 mod 60 * 1000 + t mod 1000) = t"
    using e0 e1 e2 e3 by linarith
  then show ?thesis
    by (simp add: MakeDate_def MakeTime_def Day_def HourFromTime_def MinFromTime_def
        SecFromTime_def msFromTime_def msPerDay_def msPerHour_def msPerMinute_def
        msPerSecond_def m h d x1_def[symmetric])
qed

lemma setMinutes_two_back:
  "setMinutes (fixedZone c) t (getMinutes (fixedZone c) t - 2) = t - 2 * msPerMinute"
proof -
  let ?lt = "t + c"
  have "MakeDate (Day ?lt) (MakeTime (HourFromTime ?lt) (MinFromTime ?lt - 2) (SecFromTime ?lt) (msFromTime ?lt))
      = MakeDate (Day ?lt) (MakeTime (HourFromTime ?lt) (MinFromTime ?lt) (SecFromTime ?lt) (msFromTime ?lt))
        - 2 * msPerMinute"
    by (simp add: MakeDate_def MakeTime_def algebra_simps)
  also have "\<dots> = ?lt - 2 * msPerMinute" by (simp only: time_value_fields)
  finally show ?thesis
    by (simp add: setMinutes_def getMinutes_def Let_def UTC_def LocalTime_def fixedZone_def)
qed


section \<open>Range selector and time axis\<close>















section \<open>Manual refresh\<close>

text \<open>
  Claim C8 fails for the error flag: a refresh after a transport failure leaves the
  message of the failure in place.
\<close>

theorem C8_counterexample:
  "error (handleRefresh twoHoursEast 1700000000000 1700000000000
            (onerror False initial_state)) = Some ''connection lost. retrying...''"
  by (simp add: handleRefresh_def setupEventSource_def onerror_def initial_state_def Let_def)

text \<open>
  Claim C8, amended. In every state and every time zone a refresh empties the store,
  clears the playback cursor, sets the loading flag and starts a new stream for the
  window from 00:01 of the local day to the clock reading with the minutes set two back
  (two minutes before the reading, in a zone of one offset), and changes nothing else but
  the console; the error flag is as before, and is cleared when the new connection
  opens, with store, cursor and loading flag still reset.
\<close>

theorem C8_refresh_then_open:
  "handleRefresh z now1 now2 s =
     s\<lparr>frames := [], currentFrame := None, currentIndex := 0, isLoading := True,
       loadedTimeRange := Some \<lparr>range_start = setHours z now2 0 1 0 0,
                                range_end = setMinutes z now1 (getMinutes z now1 - 2)\<rparr>,
       console := console s @ [''starting stream:''],
       eventSourceRef := Some \<lparr>start_time = setHours z now2 0 1 0 0,
                               end_time = setMinutes z now1 (getMinutes z now1 - 2),
                               closed = False\<rparr>\<rparr>
   \<and> handleRefresh (fixedZone c) now1 now2 s =
     s\<lparr>frames := [], currentFrame := None, currentIndex := 0, isLoading := True,
       loadedTimeRange := Some \<lparr>range_start = setHours (fixedZone c) now2 0 1 0 0,
                                range_end = now1 - 2 * msPerMinute\<rparr>,
       console := console s @ [''starting stream:''],
       eventSourceRef := Some \<lparr>start_time = setHours (fixedZone c) now2 0 1 0 0,
                               end_time = now1 - 2 * msPerMinute,
                               closed = False\<rparr>\<rparr>
   \<and> error (handleRefresh z now1 now2 s) = error s
   \<and> error (onopen (handleRefresh z now1 now2 s)) = None
   \<and> frames (onopen (handleRefresh z now1 now2 s)) = []
   \<and> currentFrame (onopen (handleRefresh z now1 now2 s)) = None
   \<and> currentIndex (onopen (handleRefresh z now1 now2 s)) = 0
   \<and> isLoading (onopen (handleRefresh z now1 now2 s))"
  by (simp add: handleRefresh_def setupEventSource_def onopen_def Let_def setMinutes_two_back)

text \<open>Refresh and open after a transport failure.\<close>

theorem C8_witness:
  "error (onopen (handleRefresh twoHoursEast 1700000000000 1700000000000
      (onerror False initial_state))) = None
   \<and> frames (onopen (handleRefresh twoHoursEast 1700000000000 1700000000000
      (onerror False initial_state))) = []"
  using C8_refresh_then_open[of twoHoursEast 1700000000000 1700000000000
      "onerror False initial_state"]
  by blast

section \<open>Query engine and dismissal\<close>

lemma foldl_onChunk:
  assumes "chatMessages st = pre @ [m]"
  shows "fst (foldl onChunk (full, st) cs) = full @ concat (map chunkText cs)
       \<and> chatMessages (snd (foldl onChunk (full, st) cs)) =
           pre @ [if cs = [] then m
                  else \<lparr>msg_id = fst (last cs), role = Assistant,
                        content = full @ concat (map chunkText cs)\<rparr>]"
  using assms
proof (induction cs arbitrary: full st m)
  case Nil
  then show ?case by simp
next
  case (Cons c cs)
  let ?full = "full @ chunkText c"
  let ?m = "\<lparr>msg_id = fst c, role = Assistant, content = ?full\<rparr>"
  let ?st = "st\<lparr>chatMessages := butlast (chatMessages st) @ [?m]\<rparr>"
  have step: "onChunk (full, st) c = (?full, ?st)"
    by (simp add: onChunk_def Let_def)
  have "chatMessages ?st = pre @ [?m]"
    using Cons.prems by simp
  from Cons.IH[OF this, of ?full] show ?case
    by (simp add: step)
qed

lemma streamChunks_chat:
  "chatMessages (snd (streamChunks cs (streamOpened aid (submitStart getTime uid r s)))) =
     chatMessages s @
       [\<lparr>msg_id = uid, role = User, content = aiInput s\<rparr>,
        \<lparr>msg_id = (if cs = [] then aid else fst (last cs)), role = Assistant,
         content = concat (map chunkText cs)\<rparr>]"
proof -
  let ?u = "\<lparr>msg_id = uid, role = User, content = aiInput s\<rparr>"
  let ?s1 = "streamOpened aid (submitStart getTime uid r s)"
  have "chatMessages ?s1 = (chatMessages s @ [?u]) @ [\<lparr>msg_id = aid, role = Assistant, content = []\<rparr>]"
    by (simp add: streamOpened_def submitStart_def)
  from foldl_onChunk[OF this, of "[]" cs] show ?thesis
    by (simp add: streamChunks_def)
qed

lemma afterLastUser_round:
  assumes "role u = User" "role a = Assistant"
  shows "afterLastUser (pre @ [u, a]) = [a]"
  using assms by (simp add: afterLastUser_def)

text \<open>
  Claim C4. After the submission has appended the user message and the stream has
  appended the empty assistant message, whatever chunks \<open>cs\<close> have arrived so far, the
  conversation is the earlier conversation, the user message and one assistant message
  whose content is the concatenation of the delta texts so far; one assistant message
  stands after the most recent user message; one more chunk \<open>c\<close> does not shorten the
  content and does not add a message.
\<close>

theorem C4_single_growing_assistant_message:
  "chatMessages (snd (streamChunks cs (streamOpened aid (submitStart getTime uid r s)))) =
     chatMessages s @
       [\<lparr>msg_id = uid, role = User, content = aiInput s\<rparr>,
        \<lparr>msg_id = (if cs = [] then aid else fst (last cs)), role = Assistant,
         content = concat (map chunkText cs)\<rparr>]
   \<and> assistantCount (afterLastUser
         (chatMessages (snd (streamChunks cs (streamOpened aid (submitStart getTime uid r s)))))) = 1
   \<and> length (content (last
         (chatMessages (snd (streamChunks cs (streamOpened aid (submitStart getTime uid r s)))))))
       \<le> length (content (last
         (chatMessages (snd (streamChunks (cs @ [c]) (streamOpened aid (submitStart getTime uid r s)))))))
   \<and> length (chatMessages (snd (streamChunks (cs @ [c]) (streamOpened aid (submitStart getTime uid r s)))))
       = length (chatMessages (snd (streamChunks cs (streamOpened aid (submitStart getTime uid r s)))))"
proof -
  note ch = streamChunks_chat[of cs aid getTime uid r s]
  note ch' = streamChunks_chat[of "cs @ [c]" aid getTime uid r s]
  have a: "assistantCount (afterLastUser
         (chatMessages (snd (streamChunks cs (streamOpened aid (submitStart getTime uid r s)))))) = 1"
    unfolding ch by (subst afterLastUser_round) (simp_all add: assistantCount_def)
  have b: "length (content (last
         (chatMessages (snd (streamChunks cs (streamOpened aid (submitStart getTime uid r s)))))))
       \<le> length (content (last
         (chatMessages (snd (streamChunks (cs @ [c]) (streamOpened aid (submitStart getTime uid r s)))))))"
    unfolding ch ch' by simp
  have d: "length (chatMessages (snd (streamChunks (cs @ [c]) (streamOpened aid (submitStart getTime uid r s)))))
       = length (chatMessages (snd (streamChunks cs (streamOpened aid (submitStart getTime uid r s)))))"
    unfolding ch ch' by simp
  from ch a b d show ?thesis by blast
qed

text \<open>A whole submission with three chunks, one of them without text.\<close>

theorem C4_witness:
  "chatMessages (handleAiSubmit exampleGetTime ''u1'' ''a0''
       (Completed [(''a1'', Some ''The user''), (''a2'', None), (''a3'', Some '' opened'')])
       exampleAsking)
     = [\<lparr>msg_id = ''u1'', role = User, content = ''what did I do?''\<rparr>,
        \<lparr>msg_id = ''a3'', role = Assistant, content = ''The user opened''\<rparr>]"
proof -
  have t: "trim ''what did I do?'' \<noteq> []"
    by (simp add: trim_def isWhiteSpace_def)
  have c: "chatMessages exampleAsking = []" "aiInput exampleAsking = ''what did I do?''"
      "selectionRange exampleAsking = Some exampleRange"
    by (simp_all add: exampleAsking_def initial_state_def)
  from C4_single_growing_assistant_message[of
      "[(''a1'', Some ''The user''), (''a2'', None), (''a3'', Some '' opened'')]"
      "''a0''" exampleGetTime "''u1''" exampleRange exampleAsking "(''a4'', None)"]
  show ?thesis
    by (simp add: handleAiSubmit_def t c submitFinally_def chunkText_def)
qed

text \<open>
  Claim C5 fails for the live query: after the dismiss action the query started before it
  is still live (streaming, its signal not aborted), and its next chunk writes an
  assistant message into the conversation that was just emptied.
\<close>

theorem C5_counterexample:
  "liveQuery (dismiss (submitStart exampleGetTime ''u1'' exampleRange exampleAsking))
   \<and> chatMessages (snd (onChunk (''The user'',
         dismiss (streamOpened ''a0'' (submitStart exampleGetTime ''u1'' exampleRange exampleAsking)))
         (''a2'', Some '' opened'')))
     = [\<lparr>msg_id = ''a2'', role = Assistant, content = ''The user opened''\<rparr>]"
  by (simp add: liveQuery_def dismiss_def submitStart_def streamOpened_def onChunk_def
      chunkText_def Let_def)

text \<open>
  Claim C5, amended. In every state the dismiss action clears the selection, empties the
  conversation and the input text and collapses the panel; the abort controller, the
  streaming and loading flags, the requests opened and the dragging flag are as before,
  so a live query stays live.
\<close>

theorem C5_dismiss_clears_selection_and_conversation:
  "selectionRange (dismiss s) = None
   \<and> chatMessages (dismiss s) = []
   \<and> aiInput (dismiss s) = []
   \<and> \<not> isAiPanelExpanded (dismiss s)
   \<and> abortControllerRef (dismiss s) = abortControllerRef s
   \<and> isStreaming (dismiss s) = isStreaming s
   \<and> isAiLoading (dismiss s) = isAiLoading s
   \<and> liveQuery (dismiss s) = liveQuery s
   \<and> isDragging (dismiss s) = isDragging s
   \<and> requests (dismiss s) = requests s"
  by (simp add: dismiss_def liveQuery_def)

text \<open>The dismiss action on a committed selection.\<close>

theorem C5_witness:
  "selectionRange (dismiss exampleAsking) = None \<and> chatMessages (dismiss exampleAsking) = []"
  using C5_dismiss_clears_selection_and_conversation[of exampleAsking] by blast

text \<open>
  Claim C9 fails while a range is being dragged: the guard of the submission tests that a
  selection is set, not that the pointer was released. With the panel open and a question
  typed, a pointer-down starts a new selection; a submission before the pointer-up is
  accepted, appends to the conversation and opens a request.
\<close>

theorem C9_counterexample:
  "isDragging (handleTimelineMouseDown twoHoursEast 50 1700000000000 exampleAsking)
   \<and> length (requests (handleAiSubmit exampleGetTime ''u1'' ''a0'' (Completed [(''a1'', Some ''hello'')])
       (handleTimelineMouseDown twoHoursEast 50 1700000000000 exampleAsking))) = 1
   \<and> chatMessages (handleAiSubmit exampleGetTime ''u1'' ''a0'' (Completed [(''a1'', Some ''hello'')])
       (handleTimelineMouseDown twoHoursEast 50 1700000000000 exampleAsking))
     = [\<lparr>msg_id = ''u1'', role = User, content = ''what did I do?''\<rparr>,
        \<lparr>msg_id = ''a1'', role = Assistant, content = ''hello''\<rparr>]"
proof -
  have t: "trim ''what did I do?'' \<noteq> []"
    by (simp add: trim_def isWhiteSpace_def)
  show ?thesis
    by (simp add: mouseDown_eq handleAiSubmit_def exampleAsking_def initial_state_def t
        submitStart_def streamOpened_def streamChunks_def onChunk_def chunkText_def
        submitFinally_def Let_def)
qed

text \<open>
  Claim C9, amended. A submission whose text is empty after trimming, or made while no
  selection is set (a selection being dragged counts as set), returns the state it was
  given: the conversation, the requests opened, the toasts and the flags of the engine
  are unchanged, whatever the completion service would answer.
\<close>

theorem C9_rejected_submission_changes_nothing:
  assumes "trim (aiInput s) = [] \<or> selectionRange s = None"
  shows "handleAiSubmit getTime uid aid resp s = s"
  using assms by (auto simp: handleAiSubmit_def)

text \<open>A question of three blanks with a selection, and a question without a selection.\<close>

theorem C9_witness:
  "handleAiSubmit exampleGetTime ''u1'' ''a0'' (Completed [(''a1'', Some ''hello'')])
     (exampleAsking\<lparr>aiInput := ''   ''\<rparr>) = exampleAsking\<lparr>aiInput := ''   ''\<rparr>
   \<and> handleAiSubmit exampleGetTime ''u1'' ''a0'' (Completed [(''a1'', Some ''hello'')])
     (exampleAsking\<lparr>selectionRange := None\<rparr>) = exampleAsking\<lparr>selectionRange := None\<rparr>"
proof -
  have h1: "trim (aiInput (exampleAsking\<lparr>aiInput := ''   ''\<rparr>)) = []
          \<or> selectionRange (exampleAsking\<lparr>aiInput := ''   ''\<rparr>) = None"
    by (simp add: trim_def isWhiteSpace_def)
  have h2: "trim (aiInput (exampleAsking\<lparr>selectionRange := None\<rparr>)) = []
          \<or> selectionRange (exampleAsking\<lparr>selectionRange := None\<rparr>) = None"
    by simp
  from C9_rejected_submission_changes_nothing[OF h1] C9_rejected_submission_changes_nothing[OF h2]
  show ?thesis by simp
qed

end
